theory Spec2Isabelle
  imports Complex_Main
begin

section \<open>Python values and the exceptions of the model\<close>

text \<open>
  The payload of an element is an arbitrary Python object. The model covers integers,
  finite floats (by their exact value, a rational), strings, lists, and
  \<^verbatim>\<open>numpy.ndarray\<close>s of an integer dtype, given by their shape and their row-major data.
  The entries of such an array live in a commutative ring \<open>'a\<close>: \<open>int\<close> for
  \<^verbatim>\<open>dtype=object\<close> arrays of Python integers, a type of machine words for a
  fixed-width dtype whose arithmetic wraps around. All arrays of one instance of the
  model have their entries in this one ring, so arrays of strings, arrays of floats and
  arrays of different integer dtypes side by side cannot be written. Booleans and the
  integer scalars of numpy, which Python also counts as \<^verbatim>\<open>Integral\<close>, are not
  among the values either. What is proved below about all values is proved about the
  values of this universe.
\<close>

datatype 'a pyval =
    PyInt int
  | PyFloat rat
  | PyStr string
  | PyList "'a pyval list"
  | PyArray "nat list" "'a list"

text \<open>
  The exceptions that the modelled code can raise. \<open>Unmodelled\<close> is not a Python
  exception: it marks behaviour of the interpreter or of numpy that lies outside the
  fragment described here (floating-point arithmetic, broadcasting, \<^verbatim>\<open>%\<close>-formatting
  of strings, the text of a float or of an array).
\<close>

datatype error = ValueError | TypeError | AttributeError | ZeroDivisionError | Unmodelled

text \<open>\<^verbatim>\<open>isinstance(value, Integral)\<close>\<close>

fun isinstance_Integral :: "'a pyval \<Rightarrow> bool" where
  "isinstance_Integral (PyInt i) = True"
| "isinstance_Integral v = False"

text \<open>
  The chained comparison \<^verbatim>\<open>0 <= value < order\<close> with an integer \<open>order\<close>. An integer
  and a float compare by value; a string or a list does not compare with an integer.
\<close>

fun in_range :: "'a pyval \<Rightarrow> int \<Rightarrow> error + bool" where
  "in_range (PyInt i) order = Inr (0 \<le> i \<and> i < order)"
| "in_range (PyFloat x) order = Inr (0 \<le> x \<and> x < of_int order)"
| "in_range (PyStr s) order = Inl TypeError"
| "in_range (PyList xs) order = Inl TypeError"
| "in_range (PyArray sh xs) order = Inl Unmodelled"

text \<open>\<^verbatim>\<open>a + b\<close>\<close>

fun py_add :: "'a pyval \<Rightarrow> 'a pyval \<Rightarrow> error + 'a pyval" where
  "py_add (PyInt a) (PyInt b) = Inr (PyInt (a + b))"
| "py_add (PyStr a) (PyStr b) = Inr (PyStr (a @ b))"
| "py_add (PyList a) (PyList b) = Inr (PyList (a @ b))"
| "py_add (PyArray sh xs) b = Inl Unmodelled"
| "py_add a (PyArray sh xs) = Inl Unmodelled"
| "py_add (PyFloat x) (PyInt b) = Inl Unmodelled"
| "py_add (PyFloat x) (PyFloat y) = Inl Unmodelled"
| "py_add (PyInt a) (PyFloat y) = Inl Unmodelled"
| "py_add a b = Inl TypeError"

text \<open>\<^verbatim>\<open>s % n\<close> with an integer \<open>n\<close>: the remainder has the sign of the divisor.\<close>

fun py_mod :: "'a pyval \<Rightarrow> int \<Rightarrow> error + 'a pyval" where
  "py_mod (PyInt s) n = (if n = 0 then Inl ZeroDivisionError else Inr (PyInt (s mod n)))"
| "py_mod (PyList xs) n = Inl TypeError"
| "py_mod v n = Inl Unmodelled"

section \<open>The class \<^verbatim>\<open>CyclicGroup\<close>\<close>

text \<open>
  \<^verbatim>\<open>if not isinstance(value, Integral) and 0 <= value < self.order: raise ValueError(...)\<close>
  The comparison is evaluated only when the first conjunct holds.
\<close>

definition CyclicGroup_validate :: "int \<Rightarrow> 'a pyval \<Rightarrow> error + unit" where
  "CyclicGroup_validate order v =
     (if \<not> isinstance_Integral v
      then (case in_range v order of
              Inl e \<Rightarrow> Inl e
            | Inr c \<Rightarrow> if c then Inl ValueError else Inr ())
      else Inr ())"

text \<open>\<^verbatim>\<open>return (a + b) % self.order\<close>\<close>

definition CyclicGroup_operation :: "int \<Rightarrow> 'a pyval \<Rightarrow> 'a pyval \<Rightarrow> error + 'a pyval" where
  "CyclicGroup_operation order a b =
     (case py_add a b of Inl e \<Rightarrow> Inl e | Inr s \<Rightarrow> py_mod s order)"

section \<open>The class \<^verbatim>\<open>CyclicGroupInherit\<close>\<close>

text \<open>
  \<^verbatim>\<open>if not (isinstance(value, Integral) and 0 <= int(value) < self.n): raise ValueError(...)\<close>
  For a value that is not an \<^verbatim>\<open>Integral\<close> the conjunction is false at once, and
  \<^verbatim>\<open>int(value)\<close> is not evaluated.
\<close>

fun CyclicGroupInherit_validate :: "int \<Rightarrow> 'a pyval \<Rightarrow> error + unit" where
  "CyclicGroupInherit_validate n (PyInt i) =
     (if \<not> (0 \<le> i \<and> i < n) then Inl ValueError else Inr ())"
| "CyclicGroupInherit_validate n v = Inl ValueError"

text \<open>\<^verbatim>\<open>return (a + b) % self.n\<close>\<close>

definition CyclicGroupInherit_operation :: "int \<Rightarrow> 'a pyval \<Rightarrow> 'a pyval \<Rightarrow> error + 'a pyval" where
  "CyclicGroupInherit_operation n a b =
     (case py_add a b of Inl e \<Rightarrow> Inl e | Inr s \<Rightarrow> py_mod s n)"

section \<open>numpy: coercion to an array and the matrix product\<close>

text \<open>
  \<^verbatim>\<open>np.asarray(value)\<close> belongs to numpy, not to this repository. The source reads
  only the shape of its result, and the specification speaks of a numeric array, so the
  coerced array is represented by its shape and the kind of its dtype. A scalar gives an
  array of no dimension, an array is returned as it is, and a list gives an array whose
  first dimension is the length of the list when all its items coerce to arrays of one
  shape; a ragged list is refused with a \<^verbatim>\<open>ValueError\<close> (numpy 1.24 and later). One
  string among the items makes the whole array an array of strings. The bound that numpy
  puts on the number of dimensions is not modelled.
\<close>

datatype dtype_kind = IntKind | FloatKind | StrKind

record ndarray =
  dtype :: dtype_kind
  shape :: "nat list"

fun promote :: "dtype_kind \<Rightarrow> dtype_kind \<Rightarrow> dtype_kind" where
  "promote StrKind k = StrKind"
| "promote k StrKind = StrKind"
| "promote FloatKind k = FloatKind"
| "promote k FloatKind = FloatKind"
| "promote IntKind IntKind = IntKind"

fun stack :: "ndarray list \<Rightarrow> error + ndarray" where
  "stack [] = Inr \<lparr>dtype = FloatKind, shape = [0]\<rparr>"
| "stack (a # as) =
     (if list_all (\<lambda>b. shape b = shape a) as
      then Inr \<lparr>dtype = foldl promote (dtype a) (map dtype as),
                shape = Suc (length as) # shape a\<rparr>
      else Inl ValueError)"

fun np_asarray :: "'a pyval \<Rightarrow> error + ndarray"
  and np_asarray_items :: "'a pyval list \<Rightarrow> error + ndarray list" where
  "np_asarray (PyInt i) = Inr \<lparr>dtype = IntKind, shape = []\<rparr>"
| "np_asarray (PyFloat x) = Inr \<lparr>dtype = FloatKind, shape = []\<rparr>"
| "np_asarray (PyStr s) = Inr \<lparr>dtype = StrKind, shape = []\<rparr>"
| "np_asarray (PyArray sh xs) = Inr \<lparr>dtype = IntKind, shape = sh\<rparr>"
| "np_asarray (PyList vs) =
     (case np_asarray_items vs of Inl e \<Rightarrow> Inl e | Inr as \<Rightarrow> stack as)"
| "np_asarray_items [] = Inr []"
| "np_asarray_items (v # vs) =
     (case np_asarray v of
        Inl e \<Rightarrow> Inl e
      | Inr a \<Rightarrow> (case np_asarray_items vs of Inl e \<Rightarrow> Inl e | Inr as \<Rightarrow> Inr (a # as)))"

text \<open>
  The product of an \<open>m \<times> k\<close> and a \<open>k \<times> p\<close> matrix, both in row-major order: the entry
  in row \<open>i\<close> and column \<open>j\<close> is the sum over \<open>l\<close> of \<open>xs[i, l] * ys[l, j]\<close>.
\<close>

definition matmul_data :: "nat \<Rightarrow> nat \<Rightarrow> nat \<Rightarrow> 'a::comm_ring_1 list \<Rightarrow> 'a list \<Rightarrow> 'a list" where
  "matmul_data m k p xs ys =
     map (\<lambda>q. sum_list (map (\<lambda>l. xs ! ((q div p) * k + l) * ys ! (l * p + q mod p)) [0..<k]))
       [0..<m * p]"

text \<open>
  \<^verbatim>\<open>a @ b\<close>. Integers, floats, strings and lists have no matrix product: Python raises
  \<^verbatim>\<open>TypeError\<close>. Two arrays of two dimensions are multiplied when the inner dimensions
  agree, and numpy raises \<^verbatim>\<open>ValueError\<close> when they differ or when an operand has no
  dimension. Arrays of one or of more than two dimensions, and the product of an array
  with a value that numpy would first coerce, are outside the model.
\<close>

fun py_matmul :: "'a::comm_ring_1 pyval \<Rightarrow> 'a pyval \<Rightarrow> error + 'a pyval" where
  "py_matmul (PyArray [m, k] xs) (PyArray [k', p] ys) =
     (if k = k' then Inr (PyArray [m, p] (matmul_data m k p xs ys)) else Inl ValueError)"
| "py_matmul (PyArray [] xs) (PyArray sh ys) = Inl ValueError"
| "py_matmul (PyArray sh xs) (PyArray [] ys) = Inl ValueError"
| "py_matmul (PyArray sh xs) b = Inl Unmodelled"
| "py_matmul a (PyArray sh ys) = Inl Unmodelled"
| "py_matmul a b = Inl TypeError"

section \<open>The class \<^verbatim>\<open>GeneralLinearGroup\<close>\<close>

text \<open>
  \<^verbatim>\<open>value = np.asarray(value)\<close>, then
  \<^verbatim>\<open>if not (value.shape == (self.n, self.n)): raise ValueError(...)\<close>.
  An exception of the coercion propagates.
\<close>

definition GeneralLinearGroup_validate :: "int \<Rightarrow> 'a pyval \<Rightarrow> error + unit" where
  "GeneralLinearGroup_validate n v =
     (case np_asarray v of
        Inl e \<Rightarrow> Inl e
      | Inr a \<Rightarrow> if \<not> (map int (shape a) = [n, n]) then Inl ValueError else Inr ())"

text \<open>\<^verbatim>\<open>return a @ b\<close>\<close>

definition GeneralLinearGroup_operation ::
  "int \<Rightarrow> 'a::comm_ring_1 pyval \<Rightarrow> 'a pyval \<Rightarrow> error + 'a pyval" where
  "GeneralLinearGroup_operation n a b = py_matmul a b"

section \<open>Group objects and method lookup\<close>

text \<open>
  A group object is an instance of one of the three concrete classes, with the parameter
  it was constructed with (\<^verbatim>\<open>order\<close> in \<^verbatim>\<open>CyclicGroup\<close>, \<^verbatim>\<open>n\<close> in the subclasses of
  \<^verbatim>\<open>Group\<close>). The constructors store the parameter and check nothing.
\<close>

datatype group = CyclicGroup int | CyclicGroupInherit int | GeneralLinearGroup int

fun param :: "group \<Rightarrow> int" where
  "param (CyclicGroup order) = order"
| "param (CyclicGroupInherit n) = n"
| "param (GeneralLinearGroup n) = n"

text \<open>\<^verbatim>\<open>type(self).__name__\<close>\<close>

fun type_name :: "group \<Rightarrow> string" where
  "type_name (CyclicGroup order) = ''CyclicGroup''"
| "type_name (CyclicGroupInherit n) = ''CyclicGroupInherit''"
| "type_name (GeneralLinearGroup n) = ''GeneralLinearGroup''"

text \<open>
  The attribute lookup \<^verbatim>\<open>group._validate\<close>: \<^verbatim>\<open>CyclicGroupInherit\<close> and
  \<^verbatim>\<open>GeneralLinearGroup\<close> define this method; \<^verbatim>\<open>CyclicGroup\<close> defines \<^verbatim>\<open>validate\<close>
  only, so the lookup finds nothing there.
\<close>

fun lookup_validate :: "group \<Rightarrow> ('a pyval \<Rightarrow> error + unit) option" where
  "lookup_validate (CyclicGroup order) = None"
| "lookup_validate (CyclicGroupInherit n) = Some (CyclicGroupInherit_validate n)"
| "lookup_validate (GeneralLinearGroup n) = Some (GeneralLinearGroup_validate n)"

text \<open>\<^verbatim>\<open>group.operation(a, b)\<close>: every class defines \<^verbatim>\<open>operation\<close>.\<close>

fun group_operation :: "group \<Rightarrow> 'a::comm_ring_1 pyval \<Rightarrow> 'a pyval \<Rightarrow> error + 'a pyval" where
  "group_operation (CyclicGroup order) a b = CyclicGroup_operation order a b"
| "group_operation (CyclicGroupInherit n) a b = CyclicGroupInherit_operation n a b"
| "group_operation (GeneralLinearGroup n) a b = GeneralLinearGroup_operation n a b"

section \<open>The class \<^verbatim>\<open>Element\<close>\<close>

text \<open>
  An element records the name of its runtime class (\<^verbatim>\<open>Element\<close>, or a subclass that
  inherits its methods), its group and its value. Constructing or combining elements
  returns, besides the element or the exception, the list of the calls of
  \<^verbatim>\<open>_validate\<close> that were made, each with the group and the value validated.
\<close>

record 'a element =
  cls :: string
  group :: group
  val :: "'a pyval"

type_synonym 'a validations = "(group \<times> 'a pyval) list"

text \<open>
  \<^verbatim>\<open>group._validate(value); self.group = group; self.value = value\<close>, for an instance
  of the class \<open>c\<close>.
\<close>

definition Element_init ::
  "string \<Rightarrow> group \<Rightarrow> 'a pyval \<Rightarrow> 'a validations \<times> (error + 'a element)" where
  "Element_init c g v =
     (case lookup_validate g of
        None \<Rightarrow> ([], Inl AttributeError)
      | Some f \<Rightarrow>
          ([(g, v)],
           case f v of
             Inl e \<Rightarrow> Inl e
           | Inr u \<Rightarrow> Inr \<lparr>cls = c, group = g, val = v\<rparr>))"

text \<open>
  \<^verbatim>\<open>return type(self)(self.group, self.group.operation(self.value, other.value))\<close>:
  the argument is evaluated first, then the constructor of the class of \<^verbatim>\<open>self\<close> runs.
\<close>

definition Element_mul ::
  "'a::comm_ring_1 element \<Rightarrow> 'a element \<Rightarrow> 'a validations \<times> (error + 'a element)" where
  "Element_mul self other =
     (case group_operation (group self) (val self) (val other) of
        Inl e \<Rightarrow> ([], Inl e)
      | Inr r \<Rightarrow> Element_init (cls self) (group self) r)"

text \<open>
  \<^verbatim>\<open>return Element(self, value)\<close>, the body of both \<^verbatim>\<open>CyclicGroup.__call__\<close> and
  \<^verbatim>\<open>Group.__call__\<close>.
\<close>

definition group_call ::
  "group \<Rightarrow> 'a pyval \<Rightarrow> 'a validations \<times> (error + 'a element)" where
  "group_call self v = Element_init ''Element'' self v"

section \<open>Display and representation\<close>

text \<open>
  The decimal text of an integer, as \<^verbatim>\<open>str\<close> and \<^verbatim>\<open>repr\<close> give it. (The limit of the
  interpreter on the number of digits of a converted integer is not modelled.)
\<close>

fun nat_str :: "nat \<Rightarrow> string" where
  "nat_str k =
     (if k < 10 then [''0123456789'' ! k]
      else nat_str (k div 10) @ [''0123456789'' ! (k mod 10)])"

definition int_str :: "int \<Rightarrow> string" where
  "int_str i = (if i < 0 then CHR ''-'' # nat_str (nat (- i)) else nat_str (nat i))"

text \<open>\<^verbatim>\<open>str(value)\<close> and \<^verbatim>\<open>repr(value)\<close> of a payload.\<close>

fun py_str :: "'a pyval \<Rightarrow> error + string" where
  "py_str (PyInt i) = Inr (int_str i)"
| "py_str (PyStr s) = Inr s"
| "py_str v = Inl Unmodelled"

fun py_repr :: "'a pyval \<Rightarrow> error + string" where
  "py_repr (PyInt i) = Inr (int_str i)"
| "py_repr v = Inl Unmodelled"

text \<open>
  \<^verbatim>\<open>CyclicGroup.__str__\<close> returns \<^verbatim>\<open>f"C{self.order}"\<close>; \<^verbatim>\<open>Group.__str__\<close> returns
  \<^verbatim>\<open>f"{self.symbol}{self.n}"\<close>, with the class attribute \<^verbatim>\<open>symbol\<close> equal to
  \<^verbatim>\<open>"C"\<close> in \<^verbatim>\<open>CyclicGroupInherit\<close> and to \<^verbatim>\<open>"G"\<close> in \<^verbatim>\<open>GeneralLinearGroup\<close>.
\<close>

fun group_str :: "group \<Rightarrow> string" where
  "group_str (CyclicGroup order) = ''C'' @ int_str order"
| "group_str (CyclicGroupInherit n) = ''C'' @ int_str n"
| "group_str (GeneralLinearGroup n) = ''G'' @ int_str n"

text \<open>
  \<^verbatim>\<open>CyclicGroup.__repr__\<close> returns \<^verbatim>\<open>f"{type(self).__name__}({self.order!r})"\<close>
  and \<^verbatim>\<open>Group.__repr__\<close> returns \<^verbatim>\<open>f"{type(self).__name__}({self.n!r})"\<close>.
\<close>

definition group_repr :: "group \<Rightarrow> string" where
  "group_repr self = type_name self @ ''('' @ int_str (param self) @ '')''"

text \<open>\<^verbatim>\<open>return f"{self.value}_{self.group}"\<close>\<close>

definition Element_str :: "'a element \<Rightarrow> error + string" where
  "Element_str self =
     (case py_str (val self) of
        Inl e \<Rightarrow> Inl e
      | Inr s \<Rightarrow> Inr (s @ ''_'' @ group_str (group self)))"

text \<open>\<^verbatim>\<open>return f"{type(self).__name__}({self.group!r}, {self.value!r})"\<close>\<close>

definition Element_repr :: "'a element \<Rightarrow> error + string" where
  "Element_repr self =
     (case py_repr (val self) of
        Inl e \<Rightarrow> Inl e
      | Inr r \<Rightarrow> Inr (cls self @ ''('' @ group_repr (group self) @ '', '' @ r @ '')''))"

section \<open>Membership as the specification words it\<close>

text \<open>
  The specification asks of a member of the general linear group that it be
  ``coercible to a square numeric array of shape \<open>n \<times> n\<close>''. This predicate follows
  those words: the coercion succeeds, the array is not an array of strings, and its shape
  is \<open>(n, n)\<close>. It is compared with \<open>GeneralLinearGroup_validate\<close> below.
\<close>

definition coercible_square_numeric :: "int \<Rightarrow> 'a pyval \<Rightarrow> bool" where
  "coercible_square_numeric n v =
     (case np_asarray v of
        Inl e \<Rightarrow> False
      | Inr a \<Rightarrow> dtype a \<noteq> StrKind \<and> map int (shape a) = [n, n])"

section \<open>Validation of the cyclic groups\<close>

lemma CyclicGroupInherit_validate_iff:
  "CyclicGroupInherit_validate n v = Inr () \<longleftrightarrow> (\<exists>i. v = PyInt i \<and> 0 \<le> i \<and> i < n)"
  by (cases v) auto

lemma CyclicGroupInherit_validate_raises:
  "CyclicGroupInherit_validate n v \<noteq> Inr () \<Longrightarrow> CyclicGroupInherit_validate n v = Inl ValueError"
  by (cases v) (auto split: if_splits)

text \<open>
  Claim C2. The validation of a cyclic group raises exactly when the value is not an
  integer or lies outside \<open>0 \<le> value < n\<close>; for the order 5 the values 0 and 4 pass and
  the values -1, 5 and 2.5 are refused. \<open>CyclicGroupInherit._validate\<close> does this (the two
  lemmas above). \<open>CyclicGroup.validate\<close> does not: it accepts every integer, in range or
  not, and so lets -1 and 5 pass for the order 5; of the five examples only 0, 4 and 2.5
  behave as claimed.
\<close>

theorem CyclicGroup_validate_accepts_every_integer:
  "CyclicGroup_validate order (PyInt i :: 'a pyval) = Inr ()
   \<and> CyclicGroup_validate 5 (PyInt (- 1) :: 'a pyval) = Inr ()
   \<and> CyclicGroup_validate 5 (PyInt 5 :: 'a pyval) = Inr ()
   \<and> CyclicGroup_validate 5 (PyInt 0 :: 'a pyval) = Inr ()
   \<and> CyclicGroup_validate 5 (PyInt 4 :: 'a pyval) = Inr ()
   \<and> CyclicGroup_validate 5 (PyFloat (5 / 2) :: 'a pyval) = Inl ValueError
   \<and> CyclicGroupInherit_validate 5 (PyInt (- 1) :: 'a pyval) = Inl ValueError
   \<and> CyclicGroupInherit_validate 5 (PyInt 5 :: 'a pyval) = Inl ValueError"
  by (simp add: CyclicGroup_validate_def)

section \<open>Constructing elements\<close>

text \<open>
  Claim C3. For every order and every value, calling an instance of the class
  \<open>CyclicGroup\<close> on the value raises \<open>AttributeError\<close> and returns no element: the
  constructor of \<open>Element\<close> looks up \<open>_validate\<close>, which the class does not define, so no
  validation runs at all. This holds also for a value that the method \<open>validate\<close> of the
  class accepts, such as 3 for the order 5.
\<close>

theorem CyclicGroup_call_raises_AttributeError:
  "lookup_validate (CyclicGroup n) = (None :: ('a pyval \<Rightarrow> error + unit) option)
   \<and> group_call (CyclicGroup n) (v :: 'a pyval) = ([], Inl AttributeError)
   \<and> CyclicGroup_validate 5 (PyInt 3 :: 'a pyval) = Inr ()
   \<and> group_call (CyclicGroup 5) (PyInt 3 :: 'a pyval) = ([], Inl AttributeError)"
  by (simp add: group_call_def Element_init_def CyclicGroup_validate_def)

text \<open>
  Claim C4. Constructing a cyclic group of order 7, calling it on 3 and on 5 and
  combining the two elements should give an element of value 1 that displays as \<open>1_C7\<close>.
  With the class \<open>CyclicGroup\<close> the scenario stops at its first step: calling the group on
  3 (or on 5) raises \<open>AttributeError\<close> and no element exists to combine. The sibling class
  \<open>CyclicGroupInherit\<close> does what the scenario says, step by step.
\<close>

theorem cyclic_scenario_fails_for_CyclicGroup:
  "group_call (CyclicGroup 7) (PyInt 3 :: 'a::comm_ring_1 pyval) = ([], Inl AttributeError)
   \<and> group_call (CyclicGroup 7) (PyInt 5 :: 'a pyval) = ([], Inl AttributeError)
   \<and> group_call (CyclicGroupInherit 7) (PyInt 3 :: 'a pyval)
     = ([(CyclicGroupInherit 7, PyInt 3)],
        Inr \<lparr>cls = ''Element'', group = CyclicGroupInherit 7, val = PyInt 3\<rparr>)
   \<and> group_call (CyclicGroupInherit 7) (PyInt 5 :: 'a pyval)
     = ([(CyclicGroupInherit 7, PyInt 5)],
        Inr \<lparr>cls = ''Element'', group = CyclicGroupInherit 7, val = PyInt 5\<rparr>)
   \<and> snd (Element_mul
        \<lparr>cls = ''Element'', group = CyclicGroupInherit 7, val = PyInt 3\<rparr>
        \<lparr>cls = ''Element'', group = CyclicGroupInherit 7, val = PyInt 5 :: 'a pyval\<rparr>)
     = Inr \<lparr>cls = ''Element'', group = CyclicGroupInherit 7, val = PyInt 1\<rparr>
   \<and> Element_str \<lparr>cls = ''Element'', group = CyclicGroupInherit 7, val = PyInt 1 :: 'a pyval\<rparr>
     = Inr ''1_C7''"
  by (simp add: group_call_def Element_init_def Element_mul_def CyclicGroupInherit_operation_def
      Element_str_def int_str_def)

text \<open>
  Claim C1, as the code has it. Combining two elements evaluates the operation of the
  group of the left operand on the two values. When the operation raises, so does the
  combination. When it returns \<open>r\<close>, an element of the class of the left operand is
  constructed from that group and \<open>r\<close> by the ordinary constructor, which runs
  \<open>_validate\<close> of the group on \<open>r\<close> once more: the combination returns an element exactly
  when this validation passes, and the element then has the class and the group of the
  left operand and the value \<open>r\<close>.
\<close>

theorem Element_mul_constructs_through_init:
  "(group_operation (group self) (val self) (val other) = Inl x \<longrightarrow>
      Element_mul self other = ([], Inl x))
   \<and> (group_operation (group self) (val self) (val other) = Inr r \<longrightarrow>
        Element_mul self other = Element_init (cls self) (group self) r)
   \<and> (group_operation (group self) (val self) (val other) = Inr r
        \<and> lookup_validate (group self) = Some f \<longrightarrow>
        fst (Element_mul self other) = [(group self, r)]
        \<and> (f r = Inr () \<longrightarrow>
             snd (Element_mul self other)
               = Inr \<lparr>cls = cls self, group = group self, val = r\<rparr>)
        \<and> (f r = Inl x \<longrightarrow> snd (Element_mul self other) = Inl x))
   \<and> (snd (Element_mul self other) = Inr e \<longrightarrow>
        (\<exists>r f. group_operation (group self) (val self) (val other) = Inr r
           \<and> lookup_validate (group self) = Some f \<and> f r = Inr ()
           \<and> fst (Element_mul self other) = [(group self, r)]
           \<and> e = \<lparr>cls = cls self, group = group self, val = r\<rparr>))"
  by (auto simp: Element_mul_def Element_init_def split: sum.splits option.splits)

theorem Element_mul_constructs_through_init_witness:
  "group_operation (CyclicGroupInherit 7) (PyInt 3) (PyInt 5 :: int pyval) = Inr (PyInt 1)
   \<and> lookup_validate (CyclicGroupInherit 7)
       = Some (CyclicGroupInherit_validate 7 :: int pyval \<Rightarrow> error + unit)
   \<and> CyclicGroupInherit_validate 7 (PyInt 1 :: int pyval) = Inr ()
   \<and> fst (Element_mul
        \<lparr>cls = ''Element'', group = CyclicGroupInherit 7, val = PyInt 3\<rparr>
        \<lparr>cls = ''Element'', group = CyclicGroupInherit 7, val = PyInt 5 :: int pyval\<rparr>)
     = [(CyclicGroupInherit 7, PyInt 1)]
   \<and> snd (Element_mul
        \<lparr>cls = ''Element'', group = CyclicGroupInherit 7, val = PyInt 3\<rparr>
        \<lparr>cls = ''Element'', group = CyclicGroupInherit 7, val = PyInt 5 :: int pyval\<rparr>)
     = Inr \<lparr>cls = ''Element'', group = CyclicGroupInherit 7, val = PyInt 1\<rparr>"
proof -
  have op: "group_operation
      (group \<lparr>cls = ''Element'', group = CyclicGroupInherit 7, val = PyInt 3 :: int pyval\<rparr>)
      (val \<lparr>cls = ''Element'', group = CyclicGroupInherit 7, val = PyInt 3 :: int pyval\<rparr>)
      (val \<lparr>cls = ''Element'', group = CyclicGroupInherit 7, val = PyInt 5 :: int pyval\<rparr>)
    = Inr (PyInt 1)
    \<and> lookup_validate
      (group \<lparr>cls = ''Element'', group = CyclicGroupInherit 7, val = PyInt 3 :: int pyval\<rparr>)
    = Some (CyclicGroupInherit_validate 7 :: int pyval \<Rightarrow> error + unit)"
    by (simp add: CyclicGroupInherit_operation_def)
  have ok: "CyclicGroupInherit_validate 7 (PyInt 1 :: int pyval) = Inr ()"
    by simp
  have facts: "group_operation (CyclicGroupInherit 7) (PyInt 3) (PyInt 5 :: int pyval)
      = Inr (PyInt 1)"
    "lookup_validate (CyclicGroupInherit 7)
      = Some (CyclicGroupInherit_validate 7 :: int pyval \<Rightarrow> error + unit)"
    by (simp_all add: CyclicGroupInherit_operation_def)
  from Element_mul_constructs_through_init
    [of "\<lparr>cls = ''Element'', group = CyclicGroupInherit 7, val = PyInt 3 :: int pyval\<rparr>"
        "\<lparr>cls = ''Element'', group = CyclicGroupInherit 7, val = PyInt 5 :: int pyval\<rparr>"
        ValueError "PyInt 1" "CyclicGroupInherit_validate 7"
        "\<lparr>cls = ''Element'', group = CyclicGroupInherit 7, val = PyInt 1 :: int pyval\<rparr>"]
    op ok
  have "fst (Element_mul
        \<lparr>cls = ''Element'', group = CyclicGroupInherit 7, val = PyInt 3\<rparr>
        \<lparr>cls = ''Element'', group = CyclicGroupInherit 7, val = PyInt 5 :: int pyval\<rparr>)
     = [(group \<lparr>cls = ''Element'', group = CyclicGroupInherit 7, val = PyInt 3 :: int pyval\<rparr>,
         PyInt 1)]
   \<and> snd (Element_mul
        \<lparr>cls = ''Element'', group = CyclicGroupInherit 7, val = PyInt 3\<rparr>
        \<lparr>cls = ''Element'', group = CyclicGroupInherit 7, val = PyInt 5 :: int pyval\<rparr>)
     = Inr \<lparr>cls = cls \<lparr>cls = ''Element'', group = CyclicGroupInherit 7,
                          val = PyInt 3 :: int pyval\<rparr>,
            group = group \<lparr>cls = ''Element'', group = CyclicGroupInherit 7,
                            val = PyInt 3 :: int pyval\<rparr>,
            val = PyInt 1\<rparr>"
    by blast
  with facts ok show ?thesis by simp
qed

text \<open>
  Claim C1, as the specification words it, says that no validation is run on the result
  of a combination. In the cyclic group of order 7 the combination of 3 and 5 does run
  one: the list of validations is not empty, it holds the validation of the result 1.
\<close>

theorem Element_mul_validates_result:
  "fst (Element_mul
        \<lparr>cls = ''Element'', group = CyclicGroupInherit 7, val = PyInt 3\<rparr>
        \<lparr>cls = ''Element'', group = CyclicGroupInherit 7, val = PyInt 5 :: int pyval\<rparr>)
     = [(CyclicGroupInherit 7, PyInt 1)]
   \<and> fst (Element_mul
        \<lparr>cls = ''Element'', group = CyclicGroupInherit 7, val = PyInt 3\<rparr>
        \<lparr>cls = ''Element'', group = CyclicGroupInherit 7, val = PyInt 5 :: int pyval\<rparr>)
     \<noteq> []"
  by (simp add: Element_mul_def Element_init_def CyclicGroupInherit_operation_def)

section \<open>Validation of the general linear group\<close>

lemma np_asarray_raises_ValueError:
  "np_asarray (v :: 'a pyval) = Inl e \<Longrightarrow> e = ValueError"
  and np_asarray_items_raises_ValueError:
  "np_asarray_items (vs :: 'a pyval list) = Inl e \<Longrightarrow> e = ValueError"
  by (induction v and vs rule: np_asarray_np_asarray_items.induct)
     (auto split: sum.splits if_splits list.splits elim: stack.elims)

lemma GeneralLinearGroup_validate_coerced:
  "np_asarray v = Inr a \<Longrightarrow>
   GeneralLinearGroup_validate n v = (if map int (shape a) = [n, n] then Inr () else Inl ValueError)"
  by (simp add: GeneralLinearGroup_validate_def)

lemma GeneralLinearGroup_validate_array:
  "GeneralLinearGroup_validate n (PyArray sh xs) = Inr () \<longleftrightarrow> (\<exists>m. sh = [m, m] \<and> int m = n)"
  by (auto simp: GeneralLinearGroup_validate_def Cons_eq_map_conv)

text \<open>
  Claim C10. The validation of the general linear group looks at the shape alone: for a
  value that numpy coerces to an array, it raises exactly when the shape of the array
  differs from \<open>(n, n)\<close> and passes exactly when the shape is \<open>(n, n)\<close>. So a nested list
  of two rows of two strings passes for \<open>n = 2\<close>, and calling the group on it constructs
  an element that holds the list.
\<close>

theorem GeneralLinearGroup_validate_by_shape_alone:
  "(np_asarray v = Inr a \<longrightarrow>
      (GeneralLinearGroup_validate n v = Inl ValueError \<longleftrightarrow> map int (shape a) \<noteq> [n, n])
      \<and> (GeneralLinearGroup_validate n v = Inr () \<longleftrightarrow> map int (shape a) = [n, n]))
   \<and> np_asarray (PyList [PyList [PyStr ''a'', PyStr ''b''],
                         PyList [PyStr ''c'', PyStr ''d'']] :: 'a pyval)
       = Inr \<lparr>dtype = StrKind, shape = [2, 2]\<rparr>
   \<and> group_call (GeneralLinearGroup 2)
        (PyList [PyList [PyStr ''a'', PyStr ''b''], PyList [PyStr ''c'', PyStr ''d'']] :: 'a pyval)
      = ([(GeneralLinearGroup 2,
           PyList [PyList [PyStr ''a'', PyStr ''b''], PyList [PyStr ''c'', PyStr ''d'']])],
         Inr \<lparr>cls = ''Element'', group = GeneralLinearGroup 2,
              val = PyList [PyList [PyStr ''a'', PyStr ''b''],
                            PyList [PyStr ''c'', PyStr ''d'']]\<rparr>)"
  by (simp add: GeneralLinearGroup_validate_def group_call_def Element_init_def)

theorem GeneralLinearGroup_validate_by_shape_alone_witness:
  "np_asarray (PyList [PyList [PyInt 1, PyInt 2, PyInt 3]] :: int pyval)
     = Inr \<lparr>dtype = IntKind, shape = [1, 3]\<rparr>
   \<and> GeneralLinearGroup_validate 2 (PyList [PyList [PyInt 1, PyInt 2, PyInt 3]] :: int pyval)
     = Inl ValueError
   \<and> GeneralLinearGroup_validate 2 (PyList [PyList [PyInt 1, PyInt 2, PyInt 3]] :: int pyval)
     \<noteq> Inr ()"
proof -
  have coerced: "np_asarray (PyList [PyList [PyInt 1, PyInt 2, PyInt 3]] :: int pyval)
     = Inr \<lparr>dtype = IntKind, shape = [1, 3]\<rparr>"
    by simp
  have differs: "map int (shape \<lparr>dtype = IntKind, shape = [1, 3]\<rparr>) \<noteq> [2, 2]"
    by simp
  from GeneralLinearGroup_validate_by_shape_alone
    [of "PyList [PyList [PyInt 1, PyInt 2, PyInt 3]] :: int pyval"
        "\<lparr>dtype = IntKind, shape = [1, 3]\<rparr>" 2]
    coerced differs
  have "GeneralLinearGroup_validate 2 (PyList [PyList [PyInt 1, PyInt 2, PyInt 3]] :: int pyval)
     = Inl ValueError
   \<and> GeneralLinearGroup_validate 2 (PyList [PyList [PyInt 1, PyInt 2, PyInt 3]] :: int pyval)
     \<noteq> Inr ()"
    by blast
  with coerced show ?thesis by blast
qed

text \<open>
  Claim C5, as the code has it. The validation passes exactly when the value coerces to
  an array whose shape is \<open>(n, n)\<close>, whatever the type of its entries, and raises
  \<open>ValueError\<close> in every other case. For \<open>n = 2\<close> a \<open>2 \<times> 2\<close> array and a \<open>2 \<times> 2\<close> nested list
  pass; a \<open>3 \<times> 3\<close> array, a \<open>2 \<times> 3\<close> array and a ragged list are refused with
  \<open>ValueError\<close>.
\<close>

theorem GeneralLinearGroup_validate_square_shape:
  "(GeneralLinearGroup_validate n v = Inr ()
      \<longleftrightarrow> (\<exists>a. np_asarray v = Inr a \<and> map int (shape a) = [n, n]))
   \<and> (GeneralLinearGroup_validate n v \<noteq> Inr ()
      \<longrightarrow> GeneralLinearGroup_validate n v = Inl ValueError)
   \<and> GeneralLinearGroup_validate 2 (PyArray [2, 2] [1, 0, 0, 1] :: 'a::comm_ring_1 pyval) = Inr ()
   \<and> GeneralLinearGroup_validate 2
        (PyList [PyList [PyInt 1, PyInt 0], PyList [PyInt 0, PyInt 1]] :: 'a pyval) = Inr ()
   \<and> GeneralLinearGroup_validate 2
        (PyArray [3, 3] [1, 0, 0, 0, 1, 0, 0, 0, 1] :: 'a pyval) = Inl ValueError
   \<and> GeneralLinearGroup_validate 2
        (PyArray [2, 3] [1, 2, 3, 4, 5, 6] :: 'a pyval) = Inl ValueError
   \<and> GeneralLinearGroup_validate 2
        (PyList [PyList [PyInt 1, PyInt 2], PyList [PyInt 3]] :: 'a pyval) = Inl ValueError"
proof -
  have general: "(GeneralLinearGroup_validate n v = Inr ()
      \<longleftrightarrow> (\<exists>a. np_asarray v = Inr a \<and> map int (shape a) = [n, n]))
   \<and> (GeneralLinearGroup_validate n v \<noteq> Inr ()
      \<longrightarrow> GeneralLinearGroup_validate n v = Inl ValueError)"
  proof (cases "np_asarray v")
    case (Inl e)
    then have "e = ValueError" by (rule np_asarray_raises_ValueError)
    with Inl show ?thesis by (simp add: GeneralLinearGroup_validate_def)
  next
    case (Inr a)
    then show ?thesis by (simp add: GeneralLinearGroup_validate_coerced)
  qed
  have examples: "GeneralLinearGroup_validate 2 (PyArray [2, 2] [1, 0, 0, 1] :: 'a pyval) = Inr ()"
    "GeneralLinearGroup_validate 2
        (PyList [PyList [PyInt 1, PyInt 0], PyList [PyInt 0, PyInt 1]] :: 'a pyval) = Inr ()"
    "GeneralLinearGroup_validate 2
        (PyArray [3, 3] [1, 0, 0, 0, 1, 0, 0, 0, 1] :: 'a pyval) = Inl ValueError"
    "GeneralLinearGroup_validate 2
        (PyArray [2, 3] [1, 2, 3, 4, 5, 6] :: 'a pyval) = Inl ValueError"
    "GeneralLinearGroup_validate 2
        (PyList [PyList [PyInt 1, PyInt 2], PyList [PyInt 3]] :: 'a pyval) = Inl ValueError"
    by (simp_all add: GeneralLinearGroup_validate_def)
  show ?thesis
    by (intro conjI general [THEN conjunct1] general [THEN conjunct2] examples)
qed

theorem GeneralLinearGroup_validate_square_shape_witness:
  "GeneralLinearGroup_validate 2 (PyFloat (5 / 2) :: int pyval) \<noteq> Inr ()
   \<and> GeneralLinearGroup_validate 2 (PyFloat (5 / 2) :: int pyval) = Inl ValueError"
proof -
  have ne: "GeneralLinearGroup_validate 2 (PyFloat (5 / 2) :: int pyval) \<noteq> Inr ()"
    by (simp add: GeneralLinearGroup_validate_def)
  with GeneralLinearGroup_validate_square_shape [of 2 "PyFloat (5 / 2) :: int pyval"]
  show ?thesis by blast
qed

text \<open>
  Claim C5, as the specification words it, asks for a numeric array. A nested list of two
  rows of two strings is not coercible to a square numeric array, and the validation for
  \<open>n = 2\<close> lets it pass.
\<close>

theorem GeneralLinearGroup_validate_accepts_strings:
  "GeneralLinearGroup_validate 2
     (PyList [PyList [PyStr ''a'', PyStr ''b''], PyList [PyStr ''c'', PyStr ''d'']] :: int pyval)
     = Inr ()
   \<and> \<not> coercible_square_numeric 2
     (PyList [PyList [PyStr ''a'', PyStr ''b''], PyList [PyStr ''c'', PyStr ''d'']] :: int pyval)"
  by (simp add: GeneralLinearGroup_validate_def coercible_square_numeric_def)

section \<open>The operations\<close>

lemma CyclicGroupInherit_operation_valid:
  assumes "0 \<le> i" "i < n" "0 \<le> j" "j < n"
  shows "CyclicGroupInherit_operation n (PyInt i) (PyInt j) = Inr (PyInt ((i + j) mod n))"
    and "CyclicGroup_operation n (PyInt i) (PyInt j) = Inr (PyInt ((i + j) mod n))"
    and "0 \<le> (i + j) mod n" and "(i + j) mod n < n"
  using assms by (simp_all add: CyclicGroupInherit_operation_def CyclicGroup_operation_def)

lemma length_matmul_data: "length (matmul_data m k p xs ys) = m * p"
  by (simp add: matmul_data_def)

lemma matmul_data_nth:
  "q < m * p \<Longrightarrow>
   matmul_data m k p xs ys ! q
     = (\<Sum>l = 0..<k. xs ! ((q div p) * k + l) * ys ! (l * p + q mod p))"
  by (simp add: matmul_data_def interv_sum_list_conv_sum_set_nat del: upt_Suc)

lemma matmul_data_entry:
  assumes "i < m" "j < p"
  shows "matmul_data m k p xs ys ! (i * p + j)
     = (\<Sum>l = 0..<k. xs ! (i * k + l) * ys ! (l * p + j))"
proof -
  have "i * p + j < i * p + p" using assms by simp
  also have "\<dots> = Suc i * p" by simp
  also have "\<dots> \<le> m * p" using assms by (intro mult_le_mono1) simp
  finally have "i * p + j < m * p" .
  moreover have "(i * p + j) div p = i" "(i * p + j) mod p = j"
    using assms by simp_all
  ultimately show ?thesis by (simp add: matmul_data_nth)
qed

lemma matmul_data_assoc:
  fixes xs ys zs :: "'a::comm_ring_1 list"
  shows "matmul_data n n n (matmul_data n n n xs ys) zs
       = matmul_data n n n xs (matmul_data n n n ys zs)"
proof (rule nth_equalityI)
  show "length (matmul_data n n n (matmul_data n n n xs ys) zs)
      = length (matmul_data n n n xs (matmul_data n n n ys zs))"
    by (simp add: length_matmul_data)
next
  fix q assume "q < length (matmul_data n n n (matmul_data n n n xs ys) zs)"
  then have q: "q < n * n" by (simp add: length_matmul_data)
  then have n: "0 < n" by (cases n) auto
  define i j where "i = q div n" and "j = q mod n"
  have i: "i < n" using q n by (simp add: i_def less_mult_imp_div_less)
  have j: "j < n" using n by (simp add: j_def)
  have "matmul_data n n n (matmul_data n n n xs ys) zs ! q
      = (\<Sum>l = 0..<n. matmul_data n n n xs ys ! (i * n + l) * zs ! (l * n + j))"
    using q by (simp add: matmul_data_nth i_def j_def)
  also have "\<dots> = (\<Sum>l = 0..<n.
      (\<Sum>m = 0..<n. xs ! (i * n + m) * ys ! (m * n + l)) * zs ! (l * n + j))"
    using i by (intro sum.cong refl) (simp add: matmul_data_entry)
  also have "\<dots> = (\<Sum>l = 0..<n. \<Sum>m = 0..<n.
      xs ! (i * n + m) * (ys ! (m * n + l) * zs ! (l * n + j)))"
    by (simp add: sum_distrib_right mult.assoc)
  also have "\<dots> = (\<Sum>m = 0..<n. \<Sum>l = 0..<n.
      xs ! (i * n + m) * (ys ! (m * n + l) * zs ! (l * n + j)))"
    by (rule sum.swap)
  also have "\<dots> = (\<Sum>m = 0..<n.
      xs ! (i * n + m) * (\<Sum>l = 0..<n. ys ! (m * n + l) * zs ! (l * n + j)))"
    by (simp add: sum_distrib_left)
  also have "\<dots> = (\<Sum>m = 0..<n. xs ! (i * n + m) * matmul_data n n n ys zs ! (m * n + j))"
    using j by (intro sum.cong refl) (simp add: matmul_data_entry)
  also have "\<dots> = matmul_data n n n xs (matmul_data n n n ys zs) ! q"
    using q by (simp add: matmul_data_nth i_def j_def)
  finally show "matmul_data n n n (matmul_data n n n xs ys) zs ! q
      = matmul_data n n n xs (matmul_data n n n ys zs) ! q" .
qed

text \<open>
  For an integer \<open>a\<close> with \<open>0 \<le> a < n\<close>, which is what \<open>CyclicGroupInherit._validate\<close>
  accepts among the values of the model, the operation of either cyclic class applied to
  0 and \<open>a\<close>, or to \<open>a\<close> and 0, returns \<open>a\<close>.
\<close>

lemma cyclic_operation_identity_in_range:
  "CyclicGroupInherit_validate n a = Inr () \<Longrightarrow>
     CyclicGroup_operation n (PyInt 0) a = Inr a
   \<and> CyclicGroup_operation n a (PyInt 0) = Inr a
   \<and> CyclicGroupInherit_operation n (PyInt 0) a = Inr a
   \<and> CyclicGroupInherit_operation n a (PyInt 0) = Inr a"
  by (cases a)
     (auto simp: CyclicGroup_operation_def CyclicGroupInherit_operation_def split: if_splits)


text \<open>
  What holds of closure among the values of the model. In the cyclic group, for all
  integers \<open>a\<close> and \<open>b\<close> that pass the validation the operation returns an integer in
  \<open>[0, n)\<close>, which passes the validation again. In the general linear group, for all
  arrays \<open>a\<close> and \<open>b\<close> of one integer dtype that pass the validation the operation returns an
  array of shape \<open>(n, n)\<close>, which passes the validation again.
\<close>

lemma operation_closed_on_integers_and_arrays:
  "(CyclicGroupInherit_validate n (a :: 'a pyval) = Inr ()
       \<and> CyclicGroupInherit_validate n b = Inr () \<longrightarrow>
      (\<exists>r. CyclicGroupInherit_operation n a b = Inr (PyInt r) \<and> 0 \<le> r \<and> r < n
         \<and> CyclicGroupInherit_validate n (PyInt r :: 'a pyval) = Inr ()))
   \<and> (GeneralLinearGroup_validate n (PyArray sa xs) = Inr ()
       \<and> GeneralLinearGroup_validate n (PyArray sb ys) = Inr () \<longrightarrow>
      (\<exists>zs. GeneralLinearGroup_operation n (PyArray sa xs) (PyArray sb ys)
               = Inr (PyArray sa (zs :: 'a::comm_ring_1 list))
         \<and> map int sa = [n, n]
         \<and> GeneralLinearGroup_validate n (PyArray sa zs) = Inr ()))"
proof (intro conjI impI)
  assume "CyclicGroupInherit_validate n a = Inr () \<and> CyclicGroupInherit_validate n b = Inr ()"
  then obtain i j where ab: "a = PyInt i" "b = PyInt j" and r: "0 \<le> i" "i < n" "0 \<le> j" "j < n"
    by (auto simp: CyclicGroupInherit_validate_iff)
  have "CyclicGroupInherit_validate n (PyInt ((i + j) mod n) :: 'a pyval) = Inr ()"
    using CyclicGroupInherit_operation_valid(3,4) [OF r] by simp
  with ab r show "\<exists>r. CyclicGroupInherit_operation n a b = Inr (PyInt r) \<and> 0 \<le> r \<and> r < n
         \<and> CyclicGroupInherit_validate n (PyInt r :: 'a pyval) = Inr ()"
    using CyclicGroupInherit_operation_valid [OF r] by blast
next
  assume "GeneralLinearGroup_validate n (PyArray sa xs) = Inr ()
       \<and> GeneralLinearGroup_validate n (PyArray sb ys) = Inr ()"
  then obtain m where m: "sa = [m, m]" "sb = [m, m]" "int m = n"
    by (auto simp: GeneralLinearGroup_validate_array)
  then show "\<exists>zs. GeneralLinearGroup_operation n (PyArray sa xs) (PyArray sb ys)
               = Inr (PyArray sa zs)
         \<and> map int sa = [n, n]
         \<and> GeneralLinearGroup_validate n (PyArray sa zs) = Inr ()"
    by (simp add: GeneralLinearGroup_operation_def GeneralLinearGroup_validate_array)
qed

text \<open>
  Claim C6. The operation of a group applied to two values that pass its validation
  should give a value that passes it again. In the general linear group of degree 2 the
  nested lists of the rows \<open>[1, 0]\<close>, \<open>[0, 1]\<close> and of the rows \<open>[2, 0]\<close>, \<open>[0, 2]\<close> pass the
  validation, which coerces them to arrays and discards the arrays, and calling the
  group on them constructs two elements that hold the lists. The operation applied to
  the lists raises \<open>TypeError\<close>, since lists have no matrix product, and so does
  combining the two elements: there is no result that could pass the validation.
\<close>

theorem operation_not_closed_on_lists:
  "GeneralLinearGroup_validate 2
     (PyList [PyList [PyInt 1, PyInt 0], PyList [PyInt 0, PyInt 1]] :: int pyval) = Inr ()
   \<and> GeneralLinearGroup_validate 2
     (PyList [PyList [PyInt 2, PyInt 0], PyList [PyInt 0, PyInt 2]] :: int pyval) = Inr ()
   \<and> snd (group_call (GeneralLinearGroup 2)
       (PyList [PyList [PyInt 1, PyInt 0], PyList [PyInt 0, PyInt 1]] :: int pyval))
     = Inr \<lparr>cls = ''Element'', group = GeneralLinearGroup 2,
            val = PyList [PyList [PyInt 1, PyInt 0], PyList [PyInt 0, PyInt 1]]\<rparr>
   \<and> snd (group_call (GeneralLinearGroup 2)
       (PyList [PyList [PyInt 2, PyInt 0], PyList [PyInt 0, PyInt 2]] :: int pyval))
     = Inr \<lparr>cls = ''Element'', group = GeneralLinearGroup 2,
            val = PyList [PyList [PyInt 2, PyInt 0], PyList [PyInt 0, PyInt 2]]\<rparr>
   \<and> GeneralLinearGroup_operation 2
       (PyList [PyList [PyInt 1, PyInt 0], PyList [PyInt 0, PyInt 1]] :: int pyval)
       (PyList [PyList [PyInt 2, PyInt 0], PyList [PyInt 0, PyInt 2]]) = Inl TypeError
   \<and> Element_mul
       \<lparr>cls = ''Element'', group = GeneralLinearGroup 2,
        val = PyList [PyList [PyInt 1, PyInt 0], PyList [PyInt 0, PyInt 1]] :: int pyval\<rparr>
       \<lparr>cls = ''Element'', group = GeneralLinearGroup 2,
        val = PyList [PyList [PyInt 2, PyInt 0], PyList [PyInt 0, PyInt 2]]\<rparr>
     = ([], Inl TypeError)
   \<and> \<not> (\<exists>r. GeneralLinearGroup_operation 2
             (PyList [PyList [PyInt 1, PyInt 0], PyList [PyInt 0, PyInt 1]] :: int pyval)
             (PyList [PyList [PyInt 2, PyInt 0], PyList [PyInt 0, PyInt 2]]) = Inr r
           \<and> GeneralLinearGroup_validate 2 r = Inr ())"
  by (simp add: GeneralLinearGroup_validate_def GeneralLinearGroup_operation_def
      group_call_def Element_init_def Element_mul_def)

lemma cyclic_assoc_mod: "((i + j) mod n + k) mod n = (i + (j + k) mod n) mod (n :: int)"
  by (simp add: mod_add_left_eq mod_add_right_eq add.assoc)

text \<open>
  What holds of associativity among the values of the model. In the cyclic group (either
  class), for all integers \<open>a\<close>, \<open>b\<close> and \<open>c\<close> in \<open>[0, n)\<close> the four operations return, and
  combining \<open>a\<close> with \<open>b\<close> and then with \<open>c\<close> gives the same value as combining \<open>a\<close> with the
  combination of \<open>b\<close> and \<open>c\<close>. In the general linear group the same holds for all arrays
  \<open>a\<close>, \<open>b\<close> and \<open>c\<close> of one and the same integer dtype that pass the validation.
\<close>

lemma operation_associative_on_integers_and_arrays:
  "(CyclicGroupInherit_validate n (a :: 'a pyval) = Inr ()
       \<and> CyclicGroupInherit_validate n b = Inr ()
       \<and> CyclicGroupInherit_validate n c = Inr () \<longrightarrow>
      (\<exists>x y r. CyclicGroupInherit_operation n a b = Inr x
         \<and> CyclicGroupInherit_operation n x c = Inr r
         \<and> CyclicGroupInherit_operation n b c = Inr y
         \<and> CyclicGroupInherit_operation n a y = Inr r)
      \<and> (\<exists>x y r. CyclicGroup_operation n a b = Inr x
         \<and> CyclicGroup_operation n x c = Inr r
         \<and> CyclicGroup_operation n b c = Inr y
         \<and> CyclicGroup_operation n a y = Inr r))
   \<and> (GeneralLinearGroup_validate n (PyArray sa xs) = Inr ()
       \<and> GeneralLinearGroup_validate n (PyArray sb ys) = Inr ()
       \<and> GeneralLinearGroup_validate n (PyArray sc zs) = Inr () \<longrightarrow>
      (\<exists>x y r. GeneralLinearGroup_operation n (PyArray sa xs) (PyArray sb ys) = Inr x
         \<and> GeneralLinearGroup_operation n x (PyArray sc zs) = Inr r
         \<and> GeneralLinearGroup_operation n (PyArray sb ys) (PyArray sc zs) = Inr y
         \<and> GeneralLinearGroup_operation n (PyArray sa (xs :: 'a::comm_ring_1 list)) y = Inr r))"
proof (intro conjI impI)
  assume "CyclicGroupInherit_validate n a = Inr ()
       \<and> CyclicGroupInherit_validate n b = Inr ()
       \<and> CyclicGroupInherit_validate n c = Inr ()"
  then obtain i j k where abc: "a = PyInt i" "b = PyInt j" "c = PyInt k"
    and i: "0 \<le> i" "i < n" and j: "0 \<le> j" "j < n" and k: "0 \<le> k" "k < n"
    by (auto simp: CyclicGroupInherit_validate_iff)
  note ij = CyclicGroupInherit_operation_valid [OF i j]
  note jk = CyclicGroupInherit_operation_valid [OF j k]
  note ij_k = CyclicGroupInherit_operation_valid [OF ij(3,4) k]
  note i_jk = CyclicGroupInherit_operation_valid [OF i jk(3,4)]
  have CyclicGroupInherit_operation_ab: "CyclicGroupInherit_operation n a b = Inr (PyInt ((i + j) mod n))"
    unfolding abc by (rule ij(1))
  have CyclicGroupInherit_operation_bc: "CyclicGroupInherit_operation n b c = Inr (PyInt ((j + k) mod n))"
    unfolding abc by (rule jk(1))
  have CyclicGroupInherit_operation_ab_c: "CyclicGroupInherit_operation n (PyInt ((i + j) mod n)) c
      = Inr (PyInt ((i + (j + k) mod n) mod n))"
    unfolding abc cyclic_assoc_mod [of i j n k, symmetric] by (rule ij_k(1))
  have CyclicGroupInherit_operation_a_bc: "CyclicGroupInherit_operation n a (PyInt ((j + k) mod n))
      = Inr (PyInt ((i + (j + k) mod n) mod n))"
    unfolding abc by (rule i_jk(1))
  from CyclicGroupInherit_operation_ab CyclicGroupInherit_operation_ab_c CyclicGroupInherit_operation_bc CyclicGroupInherit_operation_a_bc
  show "\<exists>x y r. CyclicGroupInherit_operation n a b = Inr x
         \<and> CyclicGroupInherit_operation n x c = Inr r
         \<and> CyclicGroupInherit_operation n b c = Inr y
         \<and> CyclicGroupInherit_operation n a y = Inr r"
    by blast
  have CyclicGroup_operation_ab: "CyclicGroup_operation n a b = Inr (PyInt ((i + j) mod n))"
    unfolding abc by (rule ij(2))
  have CyclicGroup_operation_bc: "CyclicGroup_operation n b c = Inr (PyInt ((j + k) mod n))"
    unfolding abc by (rule jk(2))
  have CyclicGroup_operation_ab_c: "CyclicGroup_operation n (PyInt ((i + j) mod n)) c
      = Inr (PyInt ((i + (j + k) mod n) mod n))"
    unfolding abc cyclic_assoc_mod [of i j n k, symmetric] by (rule ij_k(2))
  have CyclicGroup_operation_a_bc: "CyclicGroup_operation n a (PyInt ((j + k) mod n))
      = Inr (PyInt ((i + (j + k) mod n) mod n))"
    unfolding abc by (rule i_jk(2))
  from CyclicGroup_operation_ab CyclicGroup_operation_ab_c CyclicGroup_operation_bc CyclicGroup_operation_a_bc
  show "\<exists>x y r. CyclicGroup_operation n a b = Inr x
         \<and> CyclicGroup_operation n x c = Inr r
         \<and> CyclicGroup_operation n b c = Inr y
         \<and> CyclicGroup_operation n a y = Inr r"
    by blast
next
  assume "GeneralLinearGroup_validate n (PyArray sa xs) = Inr ()
       \<and> GeneralLinearGroup_validate n (PyArray sb ys) = Inr ()
       \<and> GeneralLinearGroup_validate n (PyArray sc zs) = Inr ()"
  then obtain m where m: "sa = [m, m]" "sb = [m, m]" "sc = [m, m]"
    by (auto simp: GeneralLinearGroup_validate_array)
  show "\<exists>x y r. GeneralLinearGroup_operation n (PyArray sa xs) (PyArray sb ys) = Inr x
         \<and> GeneralLinearGroup_operation n x (PyArray sc zs) = Inr r
         \<and> GeneralLinearGroup_operation n (PyArray sb ys) (PyArray sc zs) = Inr y
         \<and> GeneralLinearGroup_operation n (PyArray sa xs) y = Inr r"
    unfolding m by (simp add: GeneralLinearGroup_operation_def matmul_data_assoc)
qed

text \<open>
  Claim C9. For all values \<open>a\<close>, \<open>b\<close> and \<open>c\<close> that pass the validation of a group, applying
  the operation to \<open>a\<close> and \<open>b\<close> and then to the result and \<open>c\<close> should give the same value as
  applying it to \<open>a\<close> and the result of \<open>b\<close> and \<open>c\<close>. The nested lists of the rows \<open>[1, 0]\<close>,
  \<open>[0, 1]\<close> and of the rows \<open>[2, 0]\<close>, \<open>[0, 2]\<close> pass the validation of the general linear
  group of degree 2, and the operation applied to them raises \<open>TypeError\<close>: neither side of
  the equation has a value.
\<close>

theorem operation_on_lists_has_no_value:
  "GeneralLinearGroup_validate 2
     (PyList [PyList [PyInt 1, PyInt 0], PyList [PyInt 0, PyInt 1]] :: int pyval) = Inr ()
   \<and> GeneralLinearGroup_validate 2
     (PyList [PyList [PyInt 2, PyInt 0], PyList [PyInt 0, PyInt 2]] :: int pyval) = Inr ()
   \<and> GeneralLinearGroup_operation 2
       (PyList [PyList [PyInt 1, PyInt 0], PyList [PyInt 0, PyInt 1]] :: int pyval)
       (PyList [PyList [PyInt 2, PyInt 0], PyList [PyInt 0, PyInt 2]]) = Inl TypeError
   \<and> \<not> (\<exists>x y r. GeneralLinearGroup_operation 2
             (PyList [PyList [PyInt 1, PyInt 0], PyList [PyInt 0, PyInt 1]] :: int pyval)
             (PyList [PyList [PyInt 2, PyInt 0], PyList [PyInt 0, PyInt 2]]) = Inr x
           \<and> GeneralLinearGroup_operation 2 x
             (PyList [PyList [PyInt 2, PyInt 0], PyList [PyInt 0, PyInt 2]]) = Inr r
           \<and> GeneralLinearGroup_operation 2
             (PyList [PyList [PyInt 2, PyInt 0], PyList [PyInt 0, PyInt 2]])
             (PyList [PyList [PyInt 2, PyInt 0], PyList [PyInt 0, PyInt 2]]) = Inr y
           \<and> GeneralLinearGroup_operation 2
             (PyList [PyList [PyInt 1, PyInt 0], PyList [PyInt 0, PyInt 1]]) y = Inr r)"
  by (simp add: GeneralLinearGroup_validate_def GeneralLinearGroup_operation_def)

section \<open>Representation\<close>

text \<open>
  Claim C7. The representation of a group is the name of its runtime class followed by
  its parameter in parentheses, \<open>CyclicGroup(5)\<close> for a \<open>CyclicGroup\<close> of order 5; the name
  follows the class. The representation of an element is the name of its runtime class
  applied to the representation of its group and the representation of its value; the
  name follows the class of the element, and the representation of a value that has none
  in the model is not produced.
\<close>

theorem representation_uses_runtime_class_names:
  "group_repr g = type_name g @ ''('' @ int_str (param g) @ '')''
   \<and> group_repr (CyclicGroup 5) = ''CyclicGroup(5)''
   \<and> group_repr (CyclicGroupInherit 5) = ''CyclicGroupInherit(5)''
   \<and> group_repr (GeneralLinearGroup 5) = ''GeneralLinearGroup(5)''
   \<and> Element_repr \<lparr>cls = c, group = g, val = v\<rparr>
       = (case py_repr v of
            Inl x \<Rightarrow> Inl x
          | Inr r \<Rightarrow> Inr (c @ ''('' @ group_repr g @ '', '' @ r @ '')''))
   \<and> Element_repr \<lparr>cls = c, group = g, val = PyInt i\<rparr>
       = Inr (c @ ''('' @ type_name g @ ''('' @ int_str (param g) @ '')'' @ '', ''
              @ int_str i @ '')'')
   \<and> Element_repr \<lparr>cls = ''Element'', group = CyclicGroupInherit 5, val = PyInt 3\<rparr>
       = Inr ''Element(CyclicGroupInherit(5), 3)''
   \<and> Element_repr \<lparr>cls = ''Residue'', group = CyclicGroupInherit 5, val = PyInt 3\<rparr>
       = Inr ''Residue(CyclicGroupInherit(5), 3)''"
  by (simp add: group_repr_def Element_repr_def int_str_def split: sum.splits)

end
